theory Spec2Isabelle
  imports Main "HOL-Library.Word"
begin

section \<open>Byte slices\<close>

type_synonym bytes = "8 word list"
type_synonym uint64 = "64 word"

text \<open>
  \<^verbatim>\<open>func PadStart(s []byte, newLen int) []byte\<close> of package crypto.
  \<^verbatim>\<open>make([]byte, newLen-len(s), newLen)\<close> is a slice of \<open>newLen - len(s)\<close> zero bytes, to
  which \<open>s\<close> is appended. \<open>newLen\<close> is a signed integer; the subtraction is only reached
  when \<open>len(s) < newLen\<close>, so it cannot overflow. The limits of the allocator are not part
  of the model.
\<close>

definition PadStart :: "bytes \<Rightarrow> int \<Rightarrow> bytes" where
  "PadStart s newLen =
     (if int (length s) \<ge> newLen then s
      else (let t = replicate (nat (newLen - int (length s))) (0 :: 8 word) in t @ s))"

text \<open>Go's conversion \<^verbatim>\<open>string(b)\<close> of a byte slice: the same bytes, as characters.\<close>

definition string_of_bytes :: "bytes \<Rightarrow> string" where
  "string_of_bytes b = map (\<lambda>w. char_of (unat w)) b"

section \<open>Errors\<close>

text \<open>
  The two error codes of package errcodes that the learner uses with \<^verbatim>\<open>errorx.New\<close>. Every
  other error (of the PSI engine, of the training process, of the transport, of the
  protobuf library) is opaque to the learner: it is only tested against nil, handed on,
  and rendered with its \<^verbatim>\<open>Error()\<close> method.
\<close>

datatype ErrCode = ErrCodeParam | ErrCodeInternal

datatype error =
    errorx_New ErrCode string
  | opaque_error string

section \<open>Messages\<close>

text \<open>
  The message types, in the order of the cases of \<^verbatim>\<open>advance\<close>. The Go type is an open
  protobuf enumeration over int32: \<open>MsgUnknown\<close> stands for every value that none of the
  named constants has. The zero value of the enumeration is taken to be the first
  constant.
\<close>

datatype MessageType =
    MsgPsiEnc
  | MsgPsiAskReEnc
  | MsgPsiReEnc
  | MsgPsiIntersect
  | MsgTrainHup
  | MsgHomoPubkey
  | MsgTrainLoop
  | MsgTrainCalLocalGradCost
  | MsgTrainPartBytes
  | MsgTrainCalEncGradCost
  | MsgTrainEncGradCost
  | MsgTrainDecLocalGradCost
  | MsgTrainGradAndCost
  | MsgTrainUpdCostGrad
  | MsgTrainStatus
  | MsgTrainCheckStatus
  | MsgTrainModels
  | MsgUnknown "32 word"

record VLPsiReEncIDsRequest =
  Req_TaskID :: string
  EncIDs :: bytes

record VLPsiReEncIDsResponse =
  Resp_TaskID :: string
  ReEncIDs :: bytes

text \<open>
  \<^verbatim>\<open>pbLogicRegVl.Message\<close>, with the fields that the learner reads or writes. The two
  pointer fields are options: \<open>None\<close> is the nil pointer.
\<close>

record Message =
  Type :: MessageType
  To :: string
  From :: string
  LoopRound :: uint64
  VlLPsiReEncIDsReq :: "VLPsiReEncIDsRequest option"
  VlLPsiReEncIDsResp :: "VLPsiReEncIDsResponse option"
  HomoPubkey :: bytes
  PartBytes :: bytes
  EncGradFromOther :: bytes
  EncCostFromOther :: bytes
  GradBytes :: bytes
  CostBytes :: bytes
  Stopped :: bool

text \<open>The zero value \<^verbatim>\<open>&pbLogicRegVl.Message{}\<close>.\<close>

definition empty_Message :: Message where
  "empty_Message =
     \<lparr>Type = MsgPsiEnc, To = [], From = [], LoopRound = 0,
      VlLPsiReEncIDsReq = None, VlLPsiReEncIDsResp = None,
      HomoPubkey = [], PartBytes = [], EncGradFromOther = [], EncCostFromOther = [],
      GradBytes = [], CostBytes = [], Stopped = False\<rparr>"

datatype Algorithm = Algorithm_LOGIC_REGRESSION_VL | Algorithm_OTHER

record TrainRequest =
  TrainReq_TaskID :: string
  TrainReq_Algo :: Algorithm
  TrainReq_Payload :: bytes

record TrainResponse =
  TaskID :: string
  Payload :: bytes

record TrainTaskResult =
  Res_TaskID :: string
  Success :: bool
  Model :: bytes
  ErrMsg :: string

section \<open>The learner and its collaborators\<close>

datatype learnerStatusType =
    learnerStatusStartPSI
  | learnerStatusEndPSI
  | learnerStatusStartTrain
  | learnerStatusEndTrain

text \<open>The uint8 value that \<^verbatim>\<open>iota\<close> gives each status.\<close>

fun status_value :: "learnerStatusType \<Rightarrow> nat" where
  "status_value learnerStatusStartPSI = 0"
| "status_value learnerStatusEndPSI = 1"
| "status_value learnerStatusStartTrain = 2"
| "status_value learnerStatusEndTrain = 3"

text \<open>
  The interface \<^verbatim>\<open>PSI\<close>. Its implementation is a collaborator of the learner: the
  state of the engine is a value of type \<open>'q\<close>, and each method takes the state and
  returns its result with the new state. A Go result \<^verbatim>\<open>(v, error)\<close> is a sum, \<open>Inl\<close>
  the error.
\<close>

record 'q PSI =
  EncryptSampleIDSet :: "'q \<Rightarrow> (error + bytes) \<times> 'q"
  SetReEncryptIDSet :: "'q \<Rightarrow> string \<Rightarrow> bytes \<Rightarrow> (error + bool) \<times> 'q"
  ReEncryptIDSet :: "'q \<Rightarrow> string \<Rightarrow> bytes \<Rightarrow> (error + bytes) \<times> 'q"
  SetOtherFinalReEncryptIDSet :: "'q \<Rightarrow> string \<Rightarrow> bytes \<Rightarrow> error option \<times> 'q"
  IntersectParts :: "'q \<Rightarrow> (error + bool \<times> string list list \<times> string list) \<times> 'q"

text \<open>
  The methods of the type \<^verbatim>\<open>process\<close> that \<^verbatim>\<open>advance\<close> calls. The type is declared
  outside the files at hand, so its methods are parameters, over a state of type \<open>'p\<close>.
  The readiness flags \<open>t\<close> are integers that the learner compares with 1.
\<close>

record 'p process_methods =
  init :: "'p \<Rightarrow> string list list \<Rightarrow> error option \<times> 'p"
  setHomoPubOfOther :: "'p \<Rightarrow> bytes \<Rightarrow> 'p"
  upRound :: "'p \<Rightarrow> uint64 \<Rightarrow> error option \<times> 'p"
  calLocalGradientAndCost :: "'p \<Rightarrow> (error + bytes \<times> int) \<times> 'p"
  setPartBytesFromOther :: "'p \<Rightarrow> bytes \<Rightarrow> uint64 \<Rightarrow> error option \<times> 'p"
  calEncGradientAndCost :: "'p \<Rightarrow> (error + bytes \<times> bytes \<times> int) \<times> 'p"
  setEncGradientAndCostFromOther :: "'p \<Rightarrow> bytes \<Rightarrow> bytes \<Rightarrow> int \<times> 'p"
  decGradientAndCost :: "'p \<Rightarrow> (error + bytes \<times> bytes \<times> int) \<times> 'p"
  SetGradientAndCostFromOther :: "'p \<Rightarrow> bytes \<Rightarrow> bytes \<Rightarrow> int \<times> 'p"
  updateCostAndGradient :: "'p \<Rightarrow> (error + bool) \<times> 'p"
  setOtherStatus :: "'p \<Rightarrow> bool \<Rightarrow> 'p"
  stop :: "'p \<Rightarrow> (bool \<times> bool) \<times> 'p"
  getTrainModels :: "'p \<Rightarrow> (error + bytes) \<times> 'p"

text \<open>
  Everything the learner calls and does not define: the PSI engine, the training process,
  the interface \<^verbatim>\<open>RpcHandler\<close> over a state \<open>'w\<close> of the transport and the peer (it
  answers with a response or with an error), \<^verbatim>\<open>proto.Marshal\<close> and
  \<^verbatim>\<open>proto.Unmarshal\<close>, and the method \<^verbatim>\<open>Error()\<close> of Go's errors.
\<close>

record ('p, 'q, 'w) env =
  psi_impl :: "'q PSI"
  process_impl :: "'p process_methods"
  StepTrain :: "'w \<Rightarrow> TrainRequest \<Rightarrow> string \<Rightarrow> (error + TrainResponse) \<times> 'w"
  Marshal :: "Message \<Rightarrow> error + bytes"
  Unmarshal :: "bytes \<Rightarrow> error + Message"
  Error :: "error \<Rightarrow> string"

text \<open>
  The struct \<^verbatim>\<open>Learner\<close>. The fields psi, process and rpc hold the state of the object
  they point to. The fields homoPriv, trainParams and samplesFile are written by
  \<^verbatim>\<open>NewLearner\<close> and never read by \<^verbatim>\<open>advance\<close>; the model processes one message at a
  time, so procMutex has no counterpart. The handler rh is an effect: the results handed
  to \<^verbatim>\<open>SaveResult\<close> are listed in the outcome of a step.
\<close>

record ('p, 'q, 'w) Learner =
  id' :: string
  algo :: Algorithm
  address :: string
  parties :: "string list"
  homoPub :: bytes
  psi :: 'q
  process :: 'p
  loopRound :: uint64
  rpc :: 'w
  fileRows :: "string list list"
  status :: learnerStatusType

section \<open>Sending a message\<close>

text \<open>
  \<^verbatim>\<open>sendMessage\<close> writes From and To into the caller's message, serializes it, calls the
  peer and decodes the answer into a fresh message (left empty when the answer has no
  payload). It returns its result, the message as it left it, and the learner with the
  transport's new state.
\<close>

definition sendMessage ::
  "('p, 'q, 'w) env \<Rightarrow> ('p, 'q, 'w) Learner \<Rightarrow> Message \<Rightarrow> string
     \<Rightarrow> (error + Message) \<times> Message \<times> ('p, 'q, 'w) Learner" where
  "sendMessage E l message0 addr =
     (let message = message0\<lparr>From := address l, To := addr\<rparr> in
      case Marshal E message of
        Inl e \<Rightarrow>
          (Inl (errorx_New ErrCodeInternal (''failed to Marshal payload: '' @ Error E e)),
           message, l)
      | Inr payload \<Rightarrow>
          (let trainReq = \<lparr>TrainReq_TaskID = id' l, TrainReq_Algo = algo l,
                           TrainReq_Payload = payload\<rparr> in
           case StepTrain E (rpc l) trainReq addr of
             (Inl e, w) \<Rightarrow> (Inl e, message, l\<lparr>rpc := w\<rparr>)
           | (Inr resp, w) \<Rightarrow>
               (if length (Payload resp) \<noteq> 0 then
                  (case Unmarshal E (Payload resp) of
                     Inl e \<Rightarrow>
                       (Inl (errorx_New ErrCodeInternal
                              (''failed to Unmarshal payload['' @ string_of_bytes (Payload resp)
                               @ ''] from['' @ addr @ ''] and err is['' @ Error E e @ ''] '')),
                        message, l\<lparr>rpc := w\<rparr>)
                   | Inr m \<Rightarrow> (Inr m, message, l\<lparr>rpc := w\<rparr>))
                else (Inr empty_Message, message, l\<lparr>rpc := w\<rparr>))))"

text \<open>
  The loop of \<^verbatim>\<open>sendMessageWithRetry\<close>:
  \<^verbatim>\<open>for i := 0; i < times; i++ { m, err = l.sendMessage(message, address); if err == nil { break } }\<close>
  with the variables \<open>m\<close> and \<open>err\<close> (both nil before the loop) as a pair of options.
\<close>

function sendMessageWithRetry_loop ::
  "('p, 'q, 'w) env \<Rightarrow> nat \<Rightarrow> nat \<Rightarrow> Message option \<times> error option
     \<Rightarrow> ('p, 'q, 'w) Learner \<Rightarrow> Message \<Rightarrow> string
     \<Rightarrow> (Message option \<times> error option) \<times> ('p, 'q, 'w) Learner" where
  "sendMessageWithRetry_loop E times' i m_err l message addr =
     (if i < times' then
        (case sendMessage E l message addr of
           (Inr m, message', l') \<Rightarrow> ((Some m, None), l')
         | (Inl e, message', l') \<Rightarrow>
             sendMessageWithRetry_loop E times' (i + 1) (None, Some e) l' message' addr)
      else (m_err, l))"
  by pat_completeness auto
termination
  by (relation "measure (\<lambda>(E, times', i, m_err, l, message, addr). times' - i)") auto

definition sendMessageWithRetry ::
  "('p, 'q, 'w) env \<Rightarrow> ('p, 'q, 'w) Learner \<Rightarrow> Message \<Rightarrow> string
     \<Rightarrow> (Message option \<times> error option) \<times> ('p, 'q, 'w) Learner" where
  "sendMessageWithRetry E l message addr =
     (let times' = 3 in sendMessageWithRetry_loop E times' 0 (None, None) l message addr)"

section \<open>The state machine\<close>

text \<open>
  What one call of \<^verbatim>\<open>advance\<close> does: the learner afterwards, the two results
  \<^verbatim>\<open>(*pb.TrainResponse, error)\<close> (\<open>None\<close> is nil), the results handed to
  \<^verbatim>\<open>rh.SaveResult\<close> by this call (directly, or by a \<^verbatim>\<open>go handleError(err)\<close> that it
  starts), and the messages of the goroutines \<^verbatim>\<open>go func() { ...; l.advance(m) }()\<close> that it
  starts. A call that panics (an index out of range, a nil pointer) has no outcome.
\<close>

record ('p, 'q, 'w) outcome =
  learner :: "('p, 'q, 'w) Learner"
  ret :: "TrainResponse option"
  err :: "error option"
  saved :: "TrainTaskResult list"
  spawned :: "Message list"

text \<open>
  The closure \<^verbatim>\<open>handleError\<close>: the result that it hands to \<^verbatim>\<open>SaveResult\<close>.
\<close>

definition handleError ::
  "('p, 'q, 'w) env \<Rightarrow> ('p, 'q, 'w) Learner \<Rightarrow> error \<Rightarrow> TrainTaskResult" where
  "handleError E l e = \<lparr>Res_TaskID = id' l, Success = False, Model = [], ErrMsg = Error E e\<rparr>"

text \<open>\<^verbatim>\<open>go handleError(err); return nil, err\<close>\<close>

definition failed ::
  "('p, 'q, 'w) env \<Rightarrow> ('p, 'q, 'w) Learner \<Rightarrow> error \<Rightarrow> ('p, 'q, 'w) outcome option" where
  "failed E l e =
     Some \<lparr>learner = l, ret = None, err = Some e, saved = [handleError E l e], spawned = []\<rparr>"

text \<open>The end of \<^verbatim>\<open>advance\<close>, \<^verbatim>\<open>return ret, nil\<close>, with the goroutines started on the way.\<close>

definition finished ::
  "('p, 'q, 'w) Learner \<Rightarrow> TrainResponse option \<Rightarrow> Message list
     \<Rightarrow> ('p, 'q, 'w) outcome option" where
  "finished l r ms = Some \<lparr>learner = l, ret = r, err = None, saved = [], spawned = ms\<rparr>"

definition advance_MsgPsiEnc ::
  "('p, 'q, 'w) env \<Rightarrow> ('p, 'q, 'w) Learner \<Rightarrow> Message \<Rightarrow> ('p, 'q, 'w) outcome option" where
  "advance_MsgPsiEnc E l message =
     (case EncryptSampleIDSet (psi_impl E) (psi l) of
        (Inl e, q) \<Rightarrow> failed E (l\<lparr>psi := q\<rparr>) e
      | (Inr encIDs, q) \<Rightarrow>
          finished (l\<lparr>psi := q\<rparr>) None
            [empty_Message\<lparr>Type := MsgPsiAskReEnc,
               VlLPsiReEncIDsReq := Some \<lparr>Req_TaskID = id' l, EncIDs = encIDs\<rparr>\<rparr>])"

definition advance_MsgPsiAskReEnc ::
  "('p, 'q, 'w) env \<Rightarrow> ('p, 'q, 'w) Learner \<Rightarrow> Message \<Rightarrow> ('p, 'q, 'w) outcome option" where
  "advance_MsgPsiAskReEnc E l message =
     (let newMess = empty_Message\<lparr>Type := MsgPsiReEnc,
                      VlLPsiReEncIDsReq := VlLPsiReEncIDsReq message,
                      LoopRound := loopRound l\<rparr> in
      case parties l of
        [] \<Rightarrow> None
      | party0 # _ \<Rightarrow>
          (case sendMessageWithRetry E l newMess party0 of
             ((_, Some e), l1) \<Rightarrow> failed E l1 e
           | ((None, None), l1) \<Rightarrow> None
           | ((Some reM, None), l1) \<Rightarrow>
               (case VlLPsiReEncIDsResp reM of
                  None \<Rightarrow> None
                | Some resp \<Rightarrow>
                    (case SetReEncryptIDSet (psi_impl E) (psi l1) party0 (ReEncIDs resp) of
                       (Inl e, q) \<Rightarrow> failed E (l1\<lparr>psi := q\<rparr>) e
                     | (Inr done, q) \<Rightarrow>
                         finished (l1\<lparr>psi := q\<rparr>) None
                           (if done then [empty_Message\<lparr>Type := MsgPsiIntersect\<rparr>] else [])))))"

definition advance_MsgPsiReEnc ::
  "('p, 'q, 'w) env \<Rightarrow> ('p, 'q, 'w) Learner \<Rightarrow> Message \<Rightarrow> ('p, 'q, 'w) outcome option" where
  "advance_MsgPsiReEnc E l message =
     (case VlLPsiReEncIDsReq message of
        None \<Rightarrow> None
      | Some req \<Rightarrow>
          (case ReEncryptIDSet (psi_impl E) (psi l) (From message) (EncIDs req) of
             (Inl e, q) \<Rightarrow> failed E (l\<lparr>psi := q\<rparr>) e
           | (Inr reEncIDs, q) \<Rightarrow>
               (let l1 = l\<lparr>psi := q\<rparr>;
                    retM = empty_Message\<lparr>Type := MsgPsiReEnc, To := From message,
                             From := address l,
                             VlLPsiReEncIDsResp :=
                               Some \<lparr>Resp_TaskID = id' l, ReEncIDs = reEncIDs\<rparr>\<rparr> in
                case Marshal E retM of
                  Inl e \<Rightarrow>
                    failed E l1
                      (errorx_New ErrCodeInternal (''failed to Marshal payload: '' @ Error E e))
                | Inr payload \<Rightarrow>
                    (let r = Some \<lparr>TaskID = id' l, Payload = payload\<rparr> in
                     case SetOtherFinalReEncryptIDSet (psi_impl E) (psi l1) (From message)
                            reEncIDs of
                       (Some e, q2) \<Rightarrow>
                         Some \<lparr>learner = l1\<lparr>psi := q2\<rparr>, ret = r, err = None,
                               saved = [handleError E l1 e], spawned = []\<rparr>
                     | (None, q2) \<Rightarrow>
                         finished (l1\<lparr>psi := q2\<rparr>) r
                           [empty_Message\<lparr>Type := MsgPsiIntersect\<rparr>]))))"

definition advance_MsgPsiIntersect ::
  "('p, 'q, 'w) env \<Rightarrow> ('p, 'q, 'w) Learner \<Rightarrow> Message \<Rightarrow> ('p, 'q, 'w) outcome option" where
  "advance_MsgPsiIntersect E l message =
     (case IntersectParts (psi_impl E) (psi l) of
        (Inl e, q) \<Rightarrow> failed E (l\<lparr>psi := q\<rparr>) e
      | (Inr (done, newRows, _), q) \<Rightarrow>
          (if done then
             finished (l\<lparr>psi := q, fileRows := newRows, status := learnerStatusEndPSI\<rparr>) None
               [empty_Message\<lparr>Type := MsgTrainHup\<rparr>]
           else finished (l\<lparr>psi := q\<rparr>) None []))"

definition advance_MsgTrainHup ::
  "('p, 'q, 'w) env \<Rightarrow> ('p, 'q, 'w) Learner \<Rightarrow> Message \<Rightarrow> ('p, 'q, 'w) outcome option" where
  "advance_MsgTrainHup E l message =
     (if learnerStatusEndPSI = status l then
        (let l1 = l\<lparr>status := learnerStatusStartTrain\<rparr> in
         case init (process_impl E) (process l1) (fileRows l1) of
           (Some e, p) \<Rightarrow> failed E (l1\<lparr>process := p\<rparr>) e
         | (None, p) \<Rightarrow>
             (let l2 = l1\<lparr>process := p\<rparr>;
                  m = empty_Message\<lparr>Type := MsgHomoPubkey, HomoPubkey := homoPub l2,
                        LoopRound := loopRound l2\<rparr> in
              case parties l2 of
                [] \<Rightarrow> None
              | party0 # _ \<Rightarrow>
                  (case sendMessageWithRetry E l2 m party0 of
                     ((_, Some e), l3) \<Rightarrow> failed E l3 e
                   | ((_, None), l3) \<Rightarrow>
                       finished l3 None
                         [empty_Message\<lparr>Type := MsgTrainLoop, LoopRound := 0\<rparr>])))
      else finished l None [])"

definition advance_MsgHomoPubkey ::
  "('p, 'q, 'w) env \<Rightarrow> ('p, 'q, 'w) Learner \<Rightarrow> Message \<Rightarrow> ('p, 'q, 'w) outcome option" where
  "advance_MsgHomoPubkey E l message =
     (let homoPubkeyOfOther = HomoPubkey message;
          l1 = l\<lparr>process := setHomoPubOfOther (process_impl E) (process l) homoPubkeyOfOther\<rparr>
      in finished l1 (Some \<lparr>TaskID = id' l1, Payload = []\<rparr>) [])"

text \<open>
  The goroutine that \<^verbatim>\<open>MsgTrainLoop\<close> starts reads \<^verbatim>\<open>l.loopRound\<close> when it runs; the
  model gives it the value that this call has just written. The addition
  \<^verbatim>\<open>l.loopRound+1\<close> is on uint64 and wraps around.
\<close>

definition advance_MsgTrainLoop ::
  "('p, 'q, 'w) env \<Rightarrow> ('p, 'q, 'w) Learner \<Rightarrow> Message \<Rightarrow> ('p, 'q, 'w) outcome option" where
  "advance_MsgTrainLoop E l message =
     (let newRound = LoopRound message in
      if newRound = 0 \<or> newRound = loopRound l + 1 then
        (let l1 = l\<lparr>loopRound := newRound\<rparr> in
         case upRound (process_impl E) (process l1) (loopRound l1) of
           (Some e, p) \<Rightarrow> failed E (l1\<lparr>process := p\<rparr>) e
         | (None, p) \<Rightarrow>
             finished (l1\<lparr>process := p\<rparr>) None
               [empty_Message\<lparr>Type := MsgTrainCalLocalGradCost, LoopRound := loopRound l1\<rparr>])
      else finished l None [])"

definition advance_MsgTrainCalLocalGradCost ::
  "('p, 'q, 'w) env \<Rightarrow> ('p, 'q, 'w) Learner \<Rightarrow> Message \<Rightarrow> ('p, 'q, 'w) outcome option" where
  "advance_MsgTrainCalLocalGradCost E l message =
     (let loopRound' = LoopRound message in
      if loopRound' = loopRound l then
        (case calLocalGradientAndCost (process_impl E) (process l) of
           (Inl e, p) \<Rightarrow> failed E (l\<lparr>process := p\<rparr>) e
         | (Inr (partBytesForOther, t), p) \<Rightarrow>
             (let l1 = l\<lparr>process := p\<rparr> in
              if t = 1 then
                (let m = empty_Message\<lparr>Type := MsgTrainPartBytes,
                           PartBytes := partBytesForOther, LoopRound := loopRound'\<rparr> in
                 case parties l1 of
                   [] \<Rightarrow> None
                 | party0 # _ \<Rightarrow>
                     (case sendMessageWithRetry E l1 m party0 of
                        ((_, Some e), l2) \<Rightarrow> failed E l2 e
                      | ((_, None), l2) \<Rightarrow>
                          finished l2 None
                            [empty_Message\<lparr>Type := MsgTrainCalEncGradCost,
                               LoopRound := loopRound'\<rparr>]))
              else finished l1 None []))
      else finished l None [])"

definition advance_MsgTrainPartBytes ::
  "('p, 'q, 'w) env \<Rightarrow> ('p, 'q, 'w) Learner \<Rightarrow> Message \<Rightarrow> ('p, 'q, 'w) outcome option" where
  "advance_MsgTrainPartBytes E l message =
     (let loopRound' = LoopRound message;
          partBytesFromOther = PartBytes message;
          (err1, l1) =
            (if loopRound' = loopRound l \<or> loopRound' = loopRound l + 1 then
               (case setPartBytesFromOther (process_impl E) (process l) partBytesFromOther
                       loopRound' of
                  (e, p) \<Rightarrow> (e, l\<lparr>process := p\<rparr>))
             else (None, l))
      in case err1 of
           Some e \<Rightarrow> failed E l1 e
         | None \<Rightarrow>
             finished l1 (Some \<lparr>TaskID = id' l1, Payload = []\<rparr>)
               (if loopRound' = loopRound l1 then
                  [empty_Message\<lparr>Type := MsgTrainCalEncGradCost, LoopRound := loopRound'\<rparr>]
                else []))"

definition advance_MsgTrainCalEncGradCost ::
  "('p, 'q, 'w) env \<Rightarrow> ('p, 'q, 'w) Learner \<Rightarrow> Message \<Rightarrow> ('p, 'q, 'w) outcome option" where
  "advance_MsgTrainCalEncGradCost E l message =
     (let loopRound' = LoopRound message in
      if loopRound' = loopRound l then
        (case calEncGradientAndCost (process_impl E) (process l) of
           (Inl e, p) \<Rightarrow> failed E (l\<lparr>process := p\<rparr>) e
         | (Inr (encGradForOther, encCostForOther, t), p) \<Rightarrow>
             (let l1 = l\<lparr>process := p\<rparr> in
              if t = 1 then
                (let m = empty_Message\<lparr>Type := MsgTrainEncGradCost,
                           EncGradFromOther := encGradForOther,
                           EncCostFromOther := encCostForOther, LoopRound := loopRound'\<rparr> in
                 case parties l1 of
                   [] \<Rightarrow> None
                 | party0 # _ \<Rightarrow>
                     (case sendMessageWithRetry E l1 m party0 of
                        ((_, Some e), l2) \<Rightarrow> failed E l2 e
                      | ((_, None), l2) \<Rightarrow> finished l2 None []))
              else finished l1 None []))
      else finished l None [])"

definition advance_MsgTrainEncGradCost ::
  "('p, 'q, 'w) env \<Rightarrow> ('p, 'q, 'w) Learner \<Rightarrow> Message \<Rightarrow> ('p, 'q, 'w) outcome option" where
  "advance_MsgTrainEncGradCost E l message =
     (let loopRound' = LoopRound message;
          encGradFromOther = EncGradFromOther message;
          encCostFromOther = EncCostFromOther message in
      if loopRound' = loopRound l then
        (case setEncGradientAndCostFromOther (process_impl E) (process l) encGradFromOther
                encCostFromOther of
           (t, p) \<Rightarrow>
             (let l1 = l\<lparr>process := p\<rparr> in
              finished l1 (Some \<lparr>TaskID = id' l1, Payload = []\<rparr>)
                (if t = 1 then
                   [empty_Message\<lparr>Type := MsgTrainDecLocalGradCost, LoopRound := loopRound'\<rparr>]
                 else [])))
      else finished l (Some \<lparr>TaskID = id' l, Payload = []\<rparr>) [])"

definition advance_MsgTrainDecLocalGradCost ::
  "('p, 'q, 'w) env \<Rightarrow> ('p, 'q, 'w) Learner \<Rightarrow> Message \<Rightarrow> ('p, 'q, 'w) outcome option" where
  "advance_MsgTrainDecLocalGradCost E l message =
     (let loopRound' = LoopRound message in
      if loopRound' = loopRound l then
        (case decGradientAndCost (process_impl E) (process l) of
           (Inl e, p) \<Rightarrow> failed E (l\<lparr>process := p\<rparr>) e
         | (Inr (gradBytesForOther, costBytesForOther, t), p) \<Rightarrow>
             (let l1 = l\<lparr>process := p\<rparr> in
              if t = 1 then
                (let m = empty_Message\<lparr>Type := MsgTrainGradAndCost,
                           GradBytes := gradBytesForOther, CostBytes := costBytesForOther,
                           LoopRound := loopRound'\<rparr> in
                 case parties l1 of
                   [] \<Rightarrow> None
                 | party0 # _ \<Rightarrow>
                     (case sendMessageWithRetry E l1 m party0 of
                        ((_, Some e), l2) \<Rightarrow> failed E l2 e
                      | ((_, None), l2) \<Rightarrow> finished l2 None []))
              else finished l1 None []))
      else finished l None [])"

definition advance_MsgTrainGradAndCost ::
  "('p, 'q, 'w) env \<Rightarrow> ('p, 'q, 'w) Learner \<Rightarrow> Message \<Rightarrow> ('p, 'q, 'w) outcome option" where
  "advance_MsgTrainGradAndCost E l message =
     (let loopRound' = LoopRound message;
          gradBytesFromOther = GradBytes message;
          costBytesFromOther = CostBytes message in
      if loopRound' = loopRound l then
        (case SetGradientAndCostFromOther (process_impl E) (process l) gradBytesFromOther
                costBytesFromOther of
           (t, p) \<Rightarrow>
             (let l1 = l\<lparr>process := p\<rparr> in
              finished l1 (Some \<lparr>TaskID = id' l1, Payload = []\<rparr>)
                (if t = 1 then
                   [empty_Message\<lparr>Type := MsgTrainUpdCostGrad, LoopRound := loopRound'\<rparr>]
                 else [])))
      else finished l (Some \<lparr>TaskID = id' l, Payload = []\<rparr>) [])"

text \<open>
  In \<^verbatim>\<open>MsgTrainUpdCostGrad\<close> the expression \<^verbatim>\<open>l.parties[0]\<close> is first evaluated for the
  log line, before the message is sent.
\<close>

definition advance_MsgTrainUpdCostGrad ::
  "('p, 'q, 'w) env \<Rightarrow> ('p, 'q, 'w) Learner \<Rightarrow> Message \<Rightarrow> ('p, 'q, 'w) outcome option" where
  "advance_MsgTrainUpdCostGrad E l message =
     (let loopRound' = LoopRound message in
      if loopRound' = loopRound l then
        (case updateCostAndGradient (process_impl E) (process l) of
           (Inl e, p) \<Rightarrow> failed E (l\<lparr>process := p\<rparr>) e
         | (Inr stopped, p) \<Rightarrow>
             (let l1 = l\<lparr>process := p\<rparr>;
                  m = empty_Message\<lparr>Type := MsgTrainStatus, Stopped := stopped,
                        LoopRound := loopRound'\<rparr> in
              case parties l1 of
                [] \<Rightarrow> None
              | party0 # _ \<Rightarrow>
                  (case sendMessageWithRetry E l1 m party0 of
                     ((_, Some e), l2) \<Rightarrow> failed E l2 e
                   | ((_, None), l2) \<Rightarrow>
                       finished l2 None
                         [empty_Message\<lparr>Type := MsgTrainCheckStatus,
                            LoopRound := loopRound'\<rparr>])))
      else finished l None [])"

definition advance_MsgTrainStatus ::
  "('p, 'q, 'w) env \<Rightarrow> ('p, 'q, 'w) Learner \<Rightarrow> Message \<Rightarrow> ('p, 'q, 'w) outcome option" where
  "advance_MsgTrainStatus E l message =
     (let loopRound' = LoopRound message in
      if loopRound' = loopRound l then
        (let otherStopped = Stopped message;
             l1 = l\<lparr>process := setOtherStatus (process_impl E) (process l) otherStopped\<rparr> in
         finished l1 (Some \<lparr>TaskID = id' l1, Payload = []\<rparr>)
           [empty_Message\<lparr>Type := MsgTrainCheckStatus, LoopRound := loopRound'\<rparr>])
      else finished l (Some \<lparr>TaskID = id' l, Payload = []\<rparr>) [])"

definition advance_MsgTrainCheckStatus ::
  "('p, 'q, 'w) env \<Rightarrow> ('p, 'q, 'w) Learner \<Rightarrow> Message \<Rightarrow> ('p, 'q, 'w) outcome option" where
  "advance_MsgTrainCheckStatus E l message =
     (let loopRound' = LoopRound message in
      case stop (process_impl E) (process l) of
        ((decided, stopped), p) \<Rightarrow>
          finished (l\<lparr>process := p\<rparr>) None
            (if decided then
               (if stopped then
                  [empty_Message\<lparr>Type := MsgTrainModels, LoopRound := loopRound'\<rparr>]
                else [empty_Message\<lparr>Type := MsgTrainLoop, LoopRound := loopRound' + 1\<rparr>])
             else []))"

definition advance_MsgTrainModels ::
  "('p, 'q, 'w) env \<Rightarrow> ('p, 'q, 'w) Learner \<Rightarrow> Message \<Rightarrow> ('p, 'q, 'w) outcome option" where
  "advance_MsgTrainModels E l message =
     (if learnerStatusStartTrain = status l then
        (let l1 = l\<lparr>status := learnerStatusEndTrain\<rparr> in
         case getTrainModels (process_impl E) (process l1) of
           (Inl e, p) \<Rightarrow> failed E (l1\<lparr>process := p\<rparr>) e
         | (Inr model, p) \<Rightarrow>
             (let res = \<lparr>Res_TaskID = id' l1, Success = True, Model = model, ErrMsg = []\<rparr> in
              Some \<lparr>learner = l1\<lparr>process := p\<rparr>, ret = None, err = None, saved = [res],
                    spawned = []\<rparr>))
      else finished l None [])"

text \<open>
  \<^verbatim>\<open>advance\<close>: the switch on the message type. It has no default case: a type that
  none of the cases names falls through to \<^verbatim>\<open>return ret, nil\<close> with \<open>ret\<close> still nil.
\<close>

definition advance ::
  "('p, 'q, 'w) env \<Rightarrow> ('p, 'q, 'w) Learner \<Rightarrow> Message \<Rightarrow> ('p, 'q, 'w) outcome option" where
  "advance E l message =
     (case Type message of
        MsgPsiEnc \<Rightarrow> advance_MsgPsiEnc E l message
      | MsgPsiAskReEnc \<Rightarrow> advance_MsgPsiAskReEnc E l message
      | MsgPsiReEnc \<Rightarrow> advance_MsgPsiReEnc E l message
      | MsgPsiIntersect \<Rightarrow> advance_MsgPsiIntersect E l message
      | MsgTrainHup \<Rightarrow> advance_MsgTrainHup E l message
      | MsgHomoPubkey \<Rightarrow> advance_MsgHomoPubkey E l message
      | MsgTrainLoop \<Rightarrow> advance_MsgTrainLoop E l message
      | MsgTrainCalLocalGradCost \<Rightarrow> advance_MsgTrainCalLocalGradCost E l message
      | MsgTrainPartBytes \<Rightarrow> advance_MsgTrainPartBytes E l message
      | MsgTrainCalEncGradCost \<Rightarrow> advance_MsgTrainCalEncGradCost E l message
      | MsgTrainEncGradCost \<Rightarrow> advance_MsgTrainEncGradCost E l message
      | MsgTrainDecLocalGradCost \<Rightarrow> advance_MsgTrainDecLocalGradCost E l message
      | MsgTrainGradAndCost \<Rightarrow> advance_MsgTrainGradAndCost E l message
      | MsgTrainUpdCostGrad \<Rightarrow> advance_MsgTrainUpdCostGrad E l message
      | MsgTrainStatus \<Rightarrow> advance_MsgTrainStatus E l message
      | MsgTrainCheckStatus \<Rightarrow> advance_MsgTrainCheckStatus E l message
      | MsgTrainModels \<Rightarrow> advance_MsgTrainModels E l message
      | MsgUnknown _ \<Rightarrow> finished l None [])"

text \<open>
  \<^verbatim>\<open>Advance\<close>: decode the payload, then \<^verbatim>\<open>advance\<close>. A payload that does not decode is
  answered with a Param error, before \<^verbatim>\<open>advance\<close> and its \<^verbatim>\<open>handleError\<close> are reached.
\<close>

definition Advance ::
  "('p, 'q, 'w) env \<Rightarrow> ('p, 'q, 'w) Learner \<Rightarrow> bytes \<Rightarrow> ('p, 'q, 'w) outcome option" where
  "Advance E l payload =
     (case Unmarshal E payload of
        Inl e \<Rightarrow>
          Some \<lparr>learner = l, ret = None,
                err = Some (errorx_New ErrCodeParam
                              (''failed to Unmarshal payload: '' @ Error E e)),
                saved = [], spawned = []\<rparr>
      | Inr m \<Rightarrow> advance E l m)"

text \<open>
  The learner that \<^verbatim>\<open>NewLearner\<close> builds, and the message of the goroutine it starts.
  The PSI engine, the key pair and the training process come from constructors outside
  the files at hand; their results are arguments here.
\<close>

definition NewLearner ::
  "string \<Rightarrow> string \<Rightarrow> string list \<Rightarrow> 'w \<Rightarrow> 'q \<Rightarrow> bytes \<Rightarrow> 'p
     \<Rightarrow> ('p, 'q, 'w) Learner \<times> Message list" where
  "NewLearner tid addr ps rpc0 psi0 homoPub0 process0 =
     (\<lparr>id' = tid, algo = Algorithm_LOGIC_REGRESSION_VL, address = addr, parties = ps,
       homoPub = homoPub0, psi = psi0, process = process0, loopRound = 0, rpc = rpc0,
       fileRows = [], status = learnerStatusStartPSI\<rparr>,
      [empty_Message\<lparr>Type := MsgPsiEnc\<rparr>])"

text \<open>
  A lifetime of the learner: the messages are processed one after the other, in the order
  in which the scheduler and the transport happen to deliver them. The result is the
  learner at the end with every result handed to \<^verbatim>\<open>SaveResult\<close>, in order.
\<close>

fun run ::
  "('p, 'q, 'w) env \<Rightarrow> ('p, 'q, 'w) Learner \<Rightarrow> Message list
     \<Rightarrow> (('p, 'q, 'w) Learner \<times> TrainTaskResult list) option" where
  "run E l [] = Some (l, [])"
| "run E l (m # ms) =
     (case advance E l m of
        None \<Rightarrow> None
      | Some out \<Rightarrow>
          (case run E (learner out) ms of
             None \<Rightarrow> None
           | Some (l', rs) \<Rightarrow> Some (l', saved out @ rs)))"

text \<open>The status after each message of a lifetime (it stops at a panic).\<close>

fun statuses ::
  "('p, 'q, 'w) env \<Rightarrow> ('p, 'q, 'w) Learner \<Rightarrow> Message list \<Rightarrow> learnerStatusType list" where
  "statuses E l [] = []"
| "statuses E l (m # ms) =
     (case advance E l m of
        None \<Rightarrow> []
      | Some out \<Rightarrow> status (learner out) # statuses E (learner out) ms)"

section \<open>Concrete collaborators\<close>

text \<open>
  Small collaborators on which the learner can be run: a PSI engine and a training process
  that always succeed, and ones that always fail; a peer that fails the first \<open>k\<close> calls
  and then answers with an empty payload (its state counts the calls it has received); a
  serializer that fails when asked to, and a decoder that rejects the truncated payload
  \<open>[255]\<close> and reads \<open>[8, 99]\<close> (field 1 with the value 99) as a message of a type
  that has no name.
\<close>

definition psi_ok :: "unit PSI" where
  "psi_ok =
     \<lparr>EncryptSampleIDSet = (\<lambda>q. (Inr [1, 2, 3], q)),
      SetReEncryptIDSet = (\<lambda>q party reEncIDs. (Inr True, q)),
      ReEncryptIDSet = (\<lambda>q party encIDs. (Inr (map (\<lambda>b. b + 1) encIDs), q)),
      SetOtherFinalReEncryptIDSet = (\<lambda>q party reEncIDs. (None, q)),
      IntersectParts = (\<lambda>q. (Inr (True, [[''1'', ''0.2'']], [''1'']), q))\<rparr>"

definition psi_failing :: "unit PSI" where
  "psi_failing =
     \<lparr>EncryptSampleIDSet = (\<lambda>q. (Inl (opaque_error ''psi: no samples''), q)),
      SetReEncryptIDSet = (\<lambda>q party reEncIDs. (Inl (opaque_error ''psi: bad set''), q)),
      ReEncryptIDSet = (\<lambda>q party encIDs. (Inl (opaque_error ''psi: bad ids''), q)),
      SetOtherFinalReEncryptIDSet = (\<lambda>q party reEncIDs. (Some (opaque_error ''psi: bad set''), q)),
      IntersectParts = (\<lambda>q. (Inl (opaque_error ''psi: empty intersection''), q))\<rparr>"

definition process_ok :: "nat process_methods" where
  "process_ok =
     \<lparr>init = (\<lambda>p rows. (None, Suc p)),
      setHomoPubOfOther = (\<lambda>p pub. Suc p),
      upRound = (\<lambda>p r. (None, Suc p)),
      calLocalGradientAndCost = (\<lambda>p. (Inr ([7], 1), Suc p)),
      setPartBytesFromOther = (\<lambda>p b r. (None, Suc p)),
      calEncGradientAndCost = (\<lambda>p. (Inr ([8], [9], 1), Suc p)),
      setEncGradientAndCostFromOther = (\<lambda>p g c. (1, Suc p)),
      decGradientAndCost = (\<lambda>p. (Inr ([10], [11], 1), Suc p)),
      SetGradientAndCostFromOther = (\<lambda>p g c. (1, Suc p)),
      updateCostAndGradient = (\<lambda>p. (Inr True, Suc p)),
      setOtherStatus = (\<lambda>p b. Suc p),
      stop = (\<lambda>p. ((True, True), Suc p)),
      getTrainModels = (\<lambda>p. (Inr [42], Suc p))\<rparr>"

definition process_failing :: "nat process_methods" where
  "process_failing =
     process_ok\<lparr>init := (\<lambda>p rows. (Some (opaque_error ''process: bad rows''), Suc p)),
       upRound := (\<lambda>p r. (Some (opaque_error ''process: bad round''), Suc p)),
       setPartBytesFromOther := (\<lambda>p b r. (Some (opaque_error ''process: bad part''), Suc p)),
       getTrainModels := (\<lambda>p. (Inl (opaque_error ''process: no model''), Suc p))\<rparr>"

fun ordinal :: "nat \<Rightarrow> string" where
  "ordinal 0 = ''first''"
| "ordinal (Suc 0) = ''second''"
| "ordinal (Suc (Suc 0)) = ''third''"
| "ordinal (Suc (Suc (Suc n))) = ''later''"

definition flaky_StepTrain ::
  "nat \<Rightarrow> nat \<Rightarrow> TrainRequest \<Rightarrow> string \<Rightarrow> (error + TrainResponse) \<times> nat" where
  "flaky_StepTrain k w req peer =
     (if w < k then (Inl (opaque_error (ordinal w @ '' call timed out'')), Suc w)
      else (Inr \<lparr>TaskID = TrainReq_TaskID req, Payload = []\<rparr>, Suc w))"

definition toy_Marshal :: "bool \<Rightarrow> Message \<Rightarrow> error + bytes" where
  "toy_Marshal ok m =
     (if ok then
        Inr (case VlLPsiReEncIDsResp m of None \<Rightarrow> [0] | Some r \<Rightarrow> 1 # ReEncIDs r)
      else Inl (opaque_error ''proto: invalid UTF-8''))"

definition toy_Unmarshal :: "bytes \<Rightarrow> error + Message" where
  "toy_Unmarshal b =
     (if b = [255] then Inl (opaque_error ''unexpected EOF'')
      else if b = [8, 99] then Inr (empty_Message\<lparr>Type := MsgUnknown 99\<rparr>)
      else Inr empty_Message)"

fun toy_Error :: "error \<Rightarrow> string" where
  "toy_Error (errorx_New c s) = s"
| "toy_Error (opaque_error s) = s"

definition toy_env ::
  "unit PSI \<Rightarrow> nat process_methods \<Rightarrow> nat \<Rightarrow> bool \<Rightarrow> (nat, unit, nat) env" where
  "toy_env P Q k marshal_ok =
     \<lparr>psi_impl = P, process_impl = Q, StepTrain = flaky_StepTrain k,
      Marshal = toy_Marshal marshal_ok, Unmarshal = toy_Unmarshal, Error = toy_Error\<rparr>"

text \<open>Party A's learner for task \<open>t1\<close>, with the single peer B, as \<^verbatim>\<open>NewLearner\<close> builds it.\<close>

definition learnerA :: "(nat, unit, nat) Learner" where
  "learnerA = fst (NewLearner ''t1'' ''A'' [''B''] 0 () [5] 0)"

section \<open>Auxiliary facts\<close>

lemmas handler_defs = advance_MsgPsiEnc_def advance_MsgPsiAskReEnc_def advance_MsgPsiReEnc_def
  advance_MsgPsiIntersect_def advance_MsgTrainHup_def advance_MsgHomoPubkey_def
  advance_MsgTrainLoop_def advance_MsgTrainCalLocalGradCost_def advance_MsgTrainPartBytes_def
  advance_MsgTrainCalEncGradCost_def advance_MsgTrainEncGradCost_def
  advance_MsgTrainDecLocalGradCost_def advance_MsgTrainGradAndCost_def
  advance_MsgTrainUpdCostGrad_def advance_MsgTrainStatus_def advance_MsgTrainCheckStatus_def
  advance_MsgTrainModels_def

lemmas step_defs = advance_def handler_defs finished_def failed_def handleError_def Let_def
  sendMessageWithRetry_def sendMessage_def

lemmas toy_defs = toy_env_def psi_ok_def psi_failing_def process_ok_def process_failing_def
  flaky_StepTrain_def toy_Marshal_def toy_Unmarshal_def learnerA_def NewLearner_def
  empty_Message_def

text \<open>Sending touches nothing of the learner but the state of the transport.\<close>

lemma sendMessage_fields:
  "sendMessage E l message addr = (r, message', l') \<Longrightarrow> l' = l\<lparr>rpc := rpc l'\<rparr>"
  by (auto simp: sendMessage_def Let_def split: sum.splits prod.splits if_splits)

lemma sendMessageWithRetry_loop_fields:
  "sendMessageWithRetry_loop E t i me l message addr = (r, l') \<Longrightarrow> l' = l\<lparr>rpc := rpc l'\<rparr>"
proof (induction E t i me l message addr arbitrary: r l' rule: sendMessageWithRetry_loop.induct)
  case (1 E t i me l message addr)
  show ?case
  proof (cases "i < t")
    case False
    with "1.prems" show ?thesis by simp
  next
    case True
    obtain x message1 l1 where s: "sendMessage E l message addr = (x, message1, l1)"
      by (cases "sendMessage E l message addr") auto
    have l1: "l1 = l\<lparr>rpc := rpc l1\<rparr>" using sendMessage_fields [OF s] .
    show ?thesis
    proof (cases x)
      case (Inr m)
      with "1.prems" True s have "l' = l1" by simp
      with l1 show ?thesis by simp
    next
      case (Inl e)
      with "1.prems" True s
      have "sendMessageWithRetry_loop E t (i + 1) (None, Some e) l1 message1 addr = (r, l')"
        by simp
      from "1.IH" [OF True s [symmetric] _ _ this] Inl
      have "l' = l1\<lparr>rpc := rpc l'\<rparr>" by simp
      with l1 show ?thesis by (metis Learner.surjective Learner.update_convs(9))
    qed
  qed
qed

lemma sendMessageWithRetry_fields:
  "sendMessageWithRetry E l message addr = (r, l') \<Longrightarrow> l' = l\<lparr>rpc := rpc l'\<rparr>"
  unfolding sendMessageWithRetry_def Let_def by (rule sendMessageWithRetry_loop_fields)

lemma sendMessageWithRetry_loopRound:
  "sendMessageWithRetry E l message addr = (r, l') \<Longrightarrow> loopRound l' = loopRound l"
  by (drule sendMessageWithRetry_fields)
    (metis Learner.select_convs(8) Learner.surjective Learner.update_convs(9))

lemma sendMessageWithRetry_status:
  "sendMessageWithRetry E l message addr = (r, l') \<Longrightarrow> status l' = status l"
  by (drule sendMessageWithRetry_fields)
    (metis Learner.select_convs(11) Learner.surjective Learner.update_convs(9))

text \<open>One call of \<^verbatim>\<open>advance\<close> hands at most one result to \<^verbatim>\<open>SaveResult\<close>.\<close>

lemma advance_saved_le1:
  "advance E l m = Some out \<Longrightarrow> length (saved out) \<le> 1"
  by (cases "Type m")
    (auto simp: advance_def handler_defs finished_def failed_def Let_def
      split: prod.splits option.splits sum.splits list.splits if_splits)

text \<open>Only the case \<^verbatim>\<open>MsgTrainModels\<close> reports a success.\<close>

lemma advance_saved_Success:
  "advance E l m = Some out \<Longrightarrow> r \<in> set (saved out) \<Longrightarrow> Success r \<Longrightarrow> Type m = MsgTrainModels"
  by (cases "Type m")
    (auto simp: advance_def handler_defs finished_def failed_def handleError_def Let_def
      split: prod.splits option.splits sum.splits list.splits if_splits)

text \<open>
  Every case but \<^verbatim>\<open>MsgPsiIntersect\<close> leaves the status where it is or moves it forward:
  \<^verbatim>\<open>MsgTrainHup\<close> and \<^verbatim>\<open>MsgTrainModels\<close> test the status before they write it.
\<close>

lemma status_forward_except_MsgPsiIntersect:
  "advance E l m = Some out \<Longrightarrow> Type m \<noteq> MsgPsiIntersect \<Longrightarrow>
   status_value (status l) \<le> status_value (status (learner out))"
  by (cases "Type m")
    (auto simp: advance_def handler_defs finished_def failed_def Let_def
      split: prod.splits option.splits sum.splits list.splits if_splits
      dest!: sendMessageWithRetry_status)

section \<open>The claims\<close>

text \<open>
  Claim C10. For every byte slice \<open>s\<close> and every integer \<open>newLen\<close>, \<open>PadStart s newLen\<close> is
  \<open>s\<close> itself when \<open>len(s) \<ge> newLen\<close>; otherwise it has length exactly \<open>newLen\<close>, its
  first \<open>newLen - len(s)\<close> bytes are zero and its last \<open>len(s)\<close> bytes are \<open>s\<close>.
\<close>

theorem PadStart_spec:
  "(int (length s) \<ge> newLen \<longrightarrow> PadStart s newLen = s) \<and>
   (int (length s) < newLen \<longrightarrow>
      length (PadStart s newLen) = nat newLen \<and>
      take (nat newLen - length s) (PadStart s newLen) = replicate (nat newLen - length s) 0 \<and>
      drop (nat newLen - length s) (PadStart s newLen) = s)"
  by (auto simp: PadStart_def Let_def nat_diff_distrib')

text \<open>Three bytes asked to fill two places or a negative number of them; two bytes padded to five.\<close>

theorem PadStart_spec_witness:
  "PadStart [1, 2, 3] 2 = [1, 2, 3] \<and> PadStart [1, 2, 3] (- 4) = [1, 2, 3] \<and>
   length (PadStart [1, 2] 5) = 5 \<and> take 3 (PadStart [1, 2] 5) = [0, 0, 0] \<and>
   drop 3 (PadStart [1, 2] 5) = [1, 2]"
  using PadStart_spec [of 2 "[1, 2, 3]"] PadStart_spec [of "- 4" "[1, 2, 3]"]
    PadStart_spec [of 5 "[1, 2]"]
  by (simp add: numeral_3_eq_3)

text \<open>
  Claim C6. \<^verbatim>\<open>sendMessageWithRetry\<close> calls \<^verbatim>\<open>sendMessage\<close> at most three times, each call
  on the state that the one before left: it returns the response of the first call that
  succeeds, with the state as that call left it (no further call is made), and when all
  three fail it returns the error of the third.
\<close>

theorem sendMessageWithRetry_three_attempts:
  "sendMessageWithRetry E l message addr =
   (case sendMessage E l message addr of
      (Inr m, message1, l1) \<Rightarrow> ((Some m, None), l1)
    | (Inl e1, message1, l1) \<Rightarrow>
       (case sendMessage E l1 message1 addr of
          (Inr m, message2, l2) \<Rightarrow> ((Some m, None), l2)
        | (Inl e2, message2, l2) \<Rightarrow>
           (case sendMessage E l2 message2 addr of
              (Inr m, message3, l3) \<Rightarrow> ((Some m, None), l3)
            | (Inl e3, message3, l3) \<Rightarrow> ((None, Some e3), l3))))"
  by (simp add: sendMessageWithRetry_def Let_def numeral_3_eq_3 split: prod.splits sum.splits)

text \<open>
  A peer that counts the calls it receives: when its first two answers fail, the third is
  returned after three calls; when only the first fails, two calls are made; when all
  fail, three calls are made and the error is the third one.
\<close>

theorem sendMessageWithRetry_three_attempts_witness:
  "sendMessageWithRetry (toy_env psi_ok process_ok 2 True) learnerA
     (empty_Message\<lparr>Type := MsgHomoPubkey\<rparr>) ''B''
   = ((Some empty_Message, None), learnerA\<lparr>rpc := 3\<rparr>) \<and>
   sendMessageWithRetry (toy_env psi_ok process_ok 1 True) learnerA
     (empty_Message\<lparr>Type := MsgHomoPubkey\<rparr>) ''B''
   = ((Some empty_Message, None), learnerA\<lparr>rpc := 2\<rparr>) \<and>
   sendMessageWithRetry (toy_env psi_ok process_ok 7 True) learnerA
     (empty_Message\<lparr>Type := MsgHomoPubkey\<rparr>) ''B''
   = ((None, Some (opaque_error ''third call timed out'')), learnerA\<lparr>rpc := 3\<rparr>)"
  using sendMessageWithRetry_three_attempts [of "toy_env psi_ok process_ok 2 True" learnerA
      "empty_Message\<lparr>Type := MsgHomoPubkey\<rparr>" "''B''"]
    sendMessageWithRetry_three_attempts [of "toy_env psi_ok process_ok 1 True" learnerA
      "empty_Message\<lparr>Type := MsgHomoPubkey\<rparr>" "''B''"]
    sendMessageWithRetry_three_attempts [of "toy_env psi_ok process_ok 7 True" learnerA
      "empty_Message\<lparr>Type := MsgHomoPubkey\<rparr>" "''B''"]
  by (simp add: sendMessage_def Let_def toy_defs numeral_2_eq_2 numeral_3_eq_3)

text \<open>
  Claim C3. A wire training message (\<^verbatim>\<open>MsgTrainPartBytes\<close>, \<^verbatim>\<open>MsgTrainEncGradCost\<close>,
  \<^verbatim>\<open>MsgTrainGradAndCost\<close>, \<^verbatim>\<open>MsgTrainStatus\<close>) whose round is neither the learner's
  round nor that round plus one leaves the whole learner as it was (status, loopRound and
  process with it), starts no local message and reports nothing through \<^verbatim>\<open>SaveResult\<close>;
  it is answered with the task id and no error.
\<close>

theorem stale_wire_message_dropped:
  assumes "Type m \<in> {MsgTrainPartBytes, MsgTrainEncGradCost, MsgTrainGradAndCost, MsgTrainStatus}"
    and "LoopRound m \<noteq> loopRound l"
    and "LoopRound m \<noteq> loopRound l + 1"
  shows "advance E l m =
    Some \<lparr>learner = l, ret = Some \<lparr>TaskID = id' l, Payload = []\<rparr>, err = None, saved = [],
          spawned = []\<rparr>"
  using assms
  by (auto simp: advance_def handler_defs finished_def failed_def Let_def)

text \<open>A status message for round 7 at a learner in round 3, whose process would fail.\<close>

theorem stale_wire_message_dropped_witness:
  "Type (empty_Message\<lparr>Type := MsgTrainStatus, From := ''B'', LoopRound := 7, Stopped := True\<rparr>)
     \<in> {MsgTrainPartBytes, MsgTrainEncGradCost, MsgTrainGradAndCost, MsgTrainStatus} \<and>
   (7 :: uint64) \<noteq> 3 \<and> (7 :: uint64) \<noteq> 3 + 1 \<and>
   advance (toy_env psi_ok process_failing 0 True) (learnerA\<lparr>loopRound := 3\<rparr>)
     (empty_Message\<lparr>Type := MsgTrainStatus, From := ''B'', LoopRound := 7, Stopped := True\<rparr>)
   = Some \<lparr>learner = learnerA\<lparr>loopRound := 3\<rparr>,
           ret = Some \<lparr>TaskID = ''t1'', Payload = []\<rparr>, err = None, saved = [],
           spawned = []\<rparr>"
proof -
  let ?m = "empty_Message\<lparr>Type := MsgTrainStatus, From := ''B'', LoopRound := 7, Stopped := True\<rparr>"
  let ?l = "learnerA\<lparr>loopRound := 3\<rparr>"
  have h1: "Type ?m \<in> {MsgTrainPartBytes, MsgTrainEncGradCost, MsgTrainGradAndCost, MsgTrainStatus}"
    by simp
  have h2: "LoopRound ?m \<noteq> loopRound ?l" by simp
  have h3: "LoopRound ?m \<noteq> loopRound ?l + 1" by simp
  have i: "id' ?l = ''t1''" by (simp add: learnerA_def NewLearner_def)
  from stale_wire_message_dropped [OF h1 h2 h3, of "toy_env psi_ok process_failing 0 True"] h1 i
  show ?thesis by simp
qed

text \<open>
  Claim C9. Each of the wire cases \<^verbatim>\<open>MsgHomoPubkey\<close>, \<^verbatim>\<open>MsgTrainPartBytes\<close>,
  \<^verbatim>\<open>MsgTrainEncGradCost\<close>, \<^verbatim>\<open>MsgTrainGradAndCost\<close> and \<^verbatim>\<open>MsgTrainStatus\<close> returns, and
  when it returns without error its response is non-nil and carries the learner's task id
  with no payload, whatever the round of the message: the response to a message that was
  dropped is the response to one that was accepted.
\<close>

theorem wire_handlers_respond:
  assumes "Type m \<in> {MsgHomoPubkey, MsgTrainPartBytes, MsgTrainEncGradCost,
      MsgTrainGradAndCost, MsgTrainStatus}"
  shows "\<exists>out. advance E l m = Some out \<and>
      (err out = None \<longrightarrow> ret out = Some \<lparr>TaskID = id' l, Payload = []\<rparr>)"
  using assms
  by (auto simp: advance_def handler_defs finished_def failed_def Let_def
      split: prod.splits option.splits)

text \<open>Part bytes for round 9 at a learner in round 3: dropped, and answered all the same.\<close>

theorem wire_handlers_respond_witness:
  "\<exists>out. advance (toy_env psi_ok process_ok 0 True) (learnerA\<lparr>loopRound := 3\<rparr>)
        (empty_Message\<lparr>Type := MsgTrainPartBytes, From := ''B'', LoopRound := 9\<rparr>) = Some out \<and>
      err out = None \<and> ret out = Some \<lparr>TaskID = ''t1'', Payload = []\<rparr>"
proof -
  let ?E = "toy_env psi_ok process_ok 0 True"
  let ?l = "learnerA\<lparr>loopRound := 3\<rparr>"
  let ?m = "empty_Message\<lparr>Type := MsgTrainPartBytes, From := ''B'', LoopRound := 9\<rparr>"
  have h: "Type ?m \<in> {MsgHomoPubkey, MsgTrainPartBytes, MsgTrainEncGradCost,
      MsgTrainGradAndCost, MsgTrainStatus}" by simp
  from wire_handlers_respond [OF h, of ?E ?l] obtain out where
    a: "advance ?E ?l ?m = Some out"
    and b: "err out = None \<longrightarrow> ret out = Some \<lparr>TaskID = id' ?l, Payload = []\<rparr>"
    by (elim exE conjE)
  have "map_option err (advance ?E ?l ?m) = Some None"
    by (simp add: step_defs toy_defs)
  with a have e: "err out = None" by simp
  have i: "id' ?l = ''t1''" by (simp add: learnerA_def NewLearner_def)
  from a b e i show ?thesis by simp
qed

text \<open>
  Claim C4, as amended. A \<^verbatim>\<open>MsgTrainLoop\<close> message with round \<open>r\<close> changes loopRound
  only if \<open>r = 0\<close> or \<open>r = loopRound + 1\<close> (uint64 addition), and then loopRound becomes
  \<open>r\<close>; no other message changes loopRound. So every call either leaves loopRound as it
  is, advances it by exactly one, or sets it to 0; a round-0 message does the last also
  after training has begun, so loopRound can decrease.
\<close>

theorem loopRound_step:
  "advance E l m = Some out \<Longrightarrow>
   loopRound (learner out) =
     (if Type m = MsgTrainLoop \<and> (LoopRound m = 0 \<or> LoopRound m = loopRound l + 1)
      then LoopRound m else loopRound l)"
  by (cases "Type m")
    (auto simp: advance_def handler_defs finished_def failed_def Let_def
      split: prod.splits option.splits sum.splits list.splits if_splits
      dest!: sendMessageWithRetry_loopRound)

text \<open>A learner in round 3 that processes \<^verbatim>\<open>MsgTrainLoop\<close> for round 4.\<close>

theorem loopRound_step_witness:
  "advance (toy_env psi_ok process_ok 0 True) (learnerA\<lparr>loopRound := 3\<rparr>)
     (empty_Message\<lparr>Type := MsgTrainLoop, LoopRound := 4\<rparr>) \<noteq> None \<and>
   loopRound (learner (the (advance (toy_env psi_ok process_ok 0 True)
     (learnerA\<lparr>loopRound := 3\<rparr>) (empty_Message\<lparr>Type := MsgTrainLoop, LoopRound := 4\<rparr>)))) = 4"
proof -
  let ?a = "advance (toy_env psi_ok process_ok 0 True) (learnerA\<lparr>loopRound := 3\<rparr>)
     (empty_Message\<lparr>Type := MsgTrainLoop, LoopRound := 4\<rparr>)"
  have n: "?a \<noteq> None" by (simp add: step_defs toy_defs)
  then have h: "?a = Some (the ?a)" by simp
  from loopRound_step [OF h] n show ?thesis by simp
qed

text \<open>
  Against claim C4 as stated: the learner finishes PSI, starts training, enters round 0
  and round 1; a further \<^verbatim>\<open>MsgTrainLoop\<close> for round 0 takes loopRound from 1 back to 0.
\<close>

theorem loopRound_decreases_counterexample:
  "map_option (\<lambda>r. (status (fst r), loopRound (fst r)))
     (run (toy_env psi_ok process_ok 0 True) learnerA
        [empty_Message\<lparr>Type := MsgPsiIntersect\<rparr>, empty_Message\<lparr>Type := MsgTrainHup\<rparr>,
         empty_Message\<lparr>Type := MsgTrainLoop, LoopRound := 0\<rparr>,
         empty_Message\<lparr>Type := MsgTrainLoop, LoopRound := 1\<rparr>])
     = Some (learnerStatusStartTrain, 1) \<and>
   map_option (\<lambda>r. (status (fst r), loopRound (fst r)))
     (run (toy_env psi_ok process_ok 0 True) learnerA
        [empty_Message\<lparr>Type := MsgPsiIntersect\<rparr>, empty_Message\<lparr>Type := MsgTrainHup\<rparr>,
         empty_Message\<lparr>Type := MsgTrainLoop, LoopRound := 0\<rparr>,
         empty_Message\<lparr>Type := MsgTrainLoop, LoopRound := 1\<rparr>,
         empty_Message\<lparr>Type := MsgTrainLoop, LoopRound := 0\<rparr>])
     = Some (learnerStatusStartTrain, 0)"
  by (simp add: step_defs toy_defs)

text \<open>
  Claim C5, as amended. A \<^verbatim>\<open>MsgTrainModels\<close> message always returns. When the status is
  not StartTrain (a duplicate at EndTrain in particular) the learner is unchanged, nothing
  is reported and no error is returned. When the status is StartTrain it becomes EndTrain
  and \<^verbatim>\<open>SaveResult\<close> is called exactly once: with Success and the model when
  \<^verbatim>\<open>getTrainModels\<close> succeeds, and with the error's text and no success when it fails,
  in which case the error is returned.
\<close>

theorem MsgTrainModels_effect:
  assumes "Type m = MsgTrainModels"
  shows "\<exists>out. advance E l m = Some out \<and>
    (status l \<noteq> learnerStatusStartTrain \<longrightarrow>
       learner out = l \<and> saved out = [] \<and> err out = None) \<and>
    (status l = learnerStatusStartTrain \<longrightarrow>
       status (learner out) = learnerStatusEndTrain \<and>
       (case fst (getTrainModels (process_impl E) (process l)) of
          Inr model \<Rightarrow> err out = None \<and>
            saved out = [\<lparr>Res_TaskID = id' l, Success = True, Model = model, ErrMsg = []\<rparr>]
        | Inl e \<Rightarrow> err out = Some e \<and>
            saved out =
              [\<lparr>Res_TaskID = id' l, Success = False, Model = [], ErrMsg = Error E e\<rparr>]))"
  using assms
  by (auto simp: advance_def advance_MsgTrainModels_def finished_def failed_def handleError_def
      Let_def split: prod.splits sum.splits)

text \<open>The message at StartTrain with a process that has a model, and again at EndTrain.\<close>

theorem MsgTrainModels_effect_witness:
  "Type (empty_Message\<lparr>Type := MsgTrainModels\<rparr>) = MsgTrainModels \<and>
   (\<exists>out. advance (toy_env psi_ok process_ok 0 True)
        (learnerA\<lparr>status := learnerStatusStartTrain\<rparr>)
        (empty_Message\<lparr>Type := MsgTrainModels\<rparr>) = Some out \<and>
      status (learner out) = learnerStatusEndTrain \<and> err out = None \<and>
      saved out = [\<lparr>Res_TaskID = ''t1'', Success = True, Model = [42], ErrMsg = []\<rparr>]) \<and>
   (\<exists>out. advance (toy_env psi_ok process_ok 0 True)
        (learnerA\<lparr>status := learnerStatusEndTrain\<rparr>)
        (empty_Message\<lparr>Type := MsgTrainModels\<rparr>) = Some out \<and>
      learner out = learnerA\<lparr>status := learnerStatusEndTrain\<rparr> \<and> saved out = [] \<and>
      err out = None)"
proof -
  let ?E = "toy_env psi_ok process_ok 0 True"
  let ?m = "empty_Message\<lparr>Type := MsgTrainModels\<rparr>"
  have h: "Type ?m = MsgTrainModels" by simp
  have g: "fst (getTrainModels (process_impl ?E)
      (process (learnerA\<lparr>status := learnerStatusStartTrain\<rparr>))) = Inr [42]"
    by (simp add: toy_defs)
  have i: "id' (learnerA\<lparr>status := learnerStatusStartTrain\<rparr>) = ''t1''"
    by (simp add: learnerA_def NewLearner_def)
  from MsgTrainModels_effect [OF h, of ?E "learnerA\<lparr>status := learnerStatusStartTrain\<rparr>"]
    MsgTrainModels_effect [OF h, of ?E "learnerA\<lparr>status := learnerStatusEndTrain\<rparr>"] h g i
  show ?thesis by simp
qed

text \<open>
  Against claim C5 as stated: at StartTrain, with a process whose \<^verbatim>\<open>getTrainModels\<close>
  fails, the status becomes EndTrain and the one result handed to \<^verbatim>\<open>SaveResult\<close> is a
  failure, not a model.
\<close>

theorem MsgTrainModels_failure_counterexample:
  "map_option (\<lambda>out. (status (learner out), err out, saved out))
     (advance (toy_env psi_ok process_failing 0 True)
        (learnerA\<lparr>status := learnerStatusStartTrain\<rparr>)
        (empty_Message\<lparr>Type := MsgTrainModels\<rparr>))
   = Some (learnerStatusEndTrain, Some (opaque_error ''process: no model''),
           [\<lparr>Res_TaskID = ''t1'', Success = False, Model = [],
             ErrMsg = ''process: no model''\<rparr>])"
  by (simp add: step_defs toy_defs)

text \<open>
  Claim C7, as amended. For a payload that is not a serialized message, \<^verbatim>\<open>Advance\<close>
  returns a Param error and leaves the learner unchanged, and it posts nothing through
  \<^verbatim>\<open>SaveResult\<close>. For a payload that decodes to a message whose type is none of the
  named ones, \<^verbatim>\<open>Advance\<close> returns a nil response and a nil error, again with the
  learner unchanged and nothing posted.
\<close>

theorem Advance_malformed_or_unknown:
  "(Unmarshal E payload = Inl e \<longrightarrow>
      Advance E l payload =
        Some \<lparr>learner = l, ret = None,
              err = Some (errorx_New ErrCodeParam
                            (''failed to Unmarshal payload: '' @ Error E e)),
              saved = [], spawned = []\<rparr>) \<and>
   (Unmarshal E payload = Inr m \<and> Type m = MsgUnknown n \<longrightarrow>
      Advance E l payload =
        Some \<lparr>learner = l, ret = None, err = None, saved = [], spawned = []\<rparr>)"
  by (simp add: Advance_def advance_def finished_def)

text \<open>The truncated payload \<open>[255]\<close>, and the payload \<open>[8, 99]\<close> of a message of type 99.\<close>

theorem Advance_malformed_or_unknown_witness:
  "Unmarshal (toy_env psi_ok process_ok 0 True) [255] = Inl (opaque_error ''unexpected EOF'') \<and>
   Advance (toy_env psi_ok process_ok 0 True) learnerA [255]
   = Some \<lparr>learner = learnerA, ret = None,
           err = Some (errorx_New ErrCodeParam ''failed to Unmarshal payload: unexpected EOF''),
           saved = [], spawned = []\<rparr> \<and>
   Unmarshal (toy_env psi_ok process_ok 0 True) [8, 99]
     = Inr (empty_Message\<lparr>Type := MsgUnknown 99\<rparr>) \<and>
   Advance (toy_env psi_ok process_ok 0 True) learnerA [8, 99]
   = Some \<lparr>learner = learnerA, ret = None, err = None, saved = [], spawned = []\<rparr>"
proof -
  let ?E = "toy_env psi_ok process_ok 0 True"
  have u1: "Unmarshal ?E [255] = Inl (opaque_error ''unexpected EOF'')"
    by (simp add: toy_env_def toy_Unmarshal_def)
  have u2: "Unmarshal ?E [8, 99] = Inr (empty_Message\<lparr>Type := MsgUnknown 99\<rparr>)"
    by (simp add: toy_env_def toy_Unmarshal_def)
  have t: "Type (empty_Message\<lparr>Type := MsgUnknown 99\<rparr>) = MsgUnknown 99" by simp
  have e: "Error ?E (opaque_error ''unexpected EOF'') = ''unexpected EOF''"
    by (simp add: toy_env_def)
  from Advance_malformed_or_unknown [of ?E "[255]" "opaque_error ''unexpected EOF''" learnerA]
    Advance_malformed_or_unknown [of ?E "[8, 99]" _ learnerA
      "empty_Message\<lparr>Type := MsgUnknown 99\<rparr>" 99] u1 u2 t e
  show ?thesis by simp
qed

text \<open>
  Against claim C7 as stated: the well-formed message of type 99 is answered with no error
  at all, and the undecodable payload gets its Param error with no result posted.
\<close>

theorem Advance_no_error_result_counterexample:
  "map_option (\<lambda>out. (err out, saved out))
     (Advance (toy_env psi_ok process_ok 0 True) learnerA [8, 99]) = Some (None, []) \<and>
   map_option (\<lambda>out. (err out, saved out))
     (Advance (toy_env psi_ok process_ok 0 True) learnerA [255])
   = Some (Some (errorx_New ErrCodeParam ''failed to Unmarshal payload: unexpected EOF''), [])"
  by (simp add: step_defs toy_defs Advance_def)

text \<open>
  Claim C8, as amended. For an inbound \<^verbatim>\<open>MsgPsiReEnc\<close> message for which
  \<^verbatim>\<open>ReEncryptIDSet\<close> succeeds and the reply serializes, \<^verbatim>\<open>advance\<close> returns no error
  and a response with the task id whose payload is the serialized \<^verbatim>\<open>MsgPsiReEnc\<close> reply
  carrying the task id and exactly the bytes that \<^verbatim>\<open>ReEncryptIDSet\<close> returned; the same
  bytes are passed to \<^verbatim>\<open>SetOtherFinalReEncryptIDSet\<close>, and a \<^verbatim>\<open>MsgPsiIntersect\<close> message
  is started when that succeeds (when it fails its error is posted through
  \<^verbatim>\<open>SaveResult\<close>, and the response is returned all the same).
\<close>

theorem MsgPsiReEnc_response:
  assumes "Type m = MsgPsiReEnc"
    and "VlLPsiReEncIDsReq m = Some req"
    and "ReEncryptIDSet (psi_impl E) (psi l) (From m) (EncIDs req) = (Inr reEncIDs, q)"
    and "Marshal E (empty_Message\<lparr>Type := MsgPsiReEnc, To := From m, From := address l,
            VlLPsiReEncIDsResp := Some \<lparr>Resp_TaskID = id' l, ReEncIDs = reEncIDs\<rparr>\<rparr>)
         = Inr payload"
  shows "\<exists>out. advance E l m = Some out \<and> err out = None \<and>
      ret out = Some \<lparr>TaskID = id' l, Payload = payload\<rparr> \<and>
      psi (learner out) = snd (SetOtherFinalReEncryptIDSet (psi_impl E) q (From m) reEncIDs) \<and>
      (case fst (SetOtherFinalReEncryptIDSet (psi_impl E) q (From m) reEncIDs) of
         None \<Rightarrow> spawned out = [empty_Message\<lparr>Type := MsgPsiIntersect\<rparr>] \<and> saved out = []
       | Some e \<Rightarrow> spawned out = [] \<and>
           saved out =
             [\<lparr>Res_TaskID = id' l, Success = False, Model = [], ErrMsg = Error E e\<rparr>])"
  using assms
  by (auto simp: advance_def advance_MsgPsiReEnc_def finished_def failed_def handleError_def
      Let_def split: prod.splits sum.splits option.splits)

text \<open>Peer B asks for the re-encryption of the ids \<open>[4, 5]\<close>.\<close>

theorem MsgPsiReEnc_response_witness:
  "\<exists>out. advance (toy_env psi_ok process_ok 0 True) learnerA
        (empty_Message\<lparr>Type := MsgPsiReEnc, From := ''B'',
           VlLPsiReEncIDsReq := Some \<lparr>Req_TaskID = ''t1'', EncIDs = [4, 5]\<rparr>\<rparr>) = Some out \<and>
      err out = None \<and> ret out = Some \<lparr>TaskID = ''t1'', Payload = [1, 5, 6]\<rparr> \<and>
      spawned out = [empty_Message\<lparr>Type := MsgPsiIntersect\<rparr>] \<and> saved out = []"
proof -
  let ?E = "toy_env psi_ok process_ok 0 True"
  let ?m = "empty_Message\<lparr>Type := MsgPsiReEnc, From := ''B'',
           VlLPsiReEncIDsReq := Some \<lparr>Req_TaskID = ''t1'', EncIDs = [4, 5]\<rparr>\<rparr>"
  have h1: "Type ?m = MsgPsiReEnc" by simp
  have h2: "VlLPsiReEncIDsReq ?m = Some \<lparr>Req_TaskID = ''t1'', EncIDs = [4, 5]\<rparr>" by simp
  have h3: "ReEncryptIDSet (psi_impl ?E) (psi learnerA) (From ?m)
      (EncIDs \<lparr>Req_TaskID = ''t1'', EncIDs = [4, 5]\<rparr>) = (Inr [5, 6], ())"
    by (simp add: toy_defs)
  have h4: "Marshal ?E (empty_Message\<lparr>Type := MsgPsiReEnc, To := From ?m,
            From := address learnerA,
            VlLPsiReEncIDsResp := Some \<lparr>Resp_TaskID = id' learnerA, ReEncIDs = [5, 6]\<rparr>\<rparr>)
         = Inr [1, 5, 6]"
    by (simp add: toy_defs)
  have s: "SetOtherFinalReEncryptIDSet (psi_impl ?E) () (From ?m) [5, 6] = (None, ())"
    by (simp add: toy_defs)
  have i: "id' learnerA = ''t1''" by (simp add: learnerA_def NewLearner_def)
  from MsgPsiReEnc_response [OF h1 h2 h3 h4] s i show ?thesis by simp
qed

text \<open>
  Against claim C8 as stated: \<^verbatim>\<open>ReEncryptIDSet\<close> succeeds, the reply does not serialize,
  and \<^verbatim>\<open>advance\<close> returns a nil response with an Internal error.
\<close>

theorem MsgPsiReEnc_Marshal_failure_counterexample:
  "map_option (\<lambda>out. (ret out, err out))
     (advance (toy_env psi_ok process_ok 0 False) learnerA
        (empty_Message\<lparr>Type := MsgPsiReEnc, From := ''B'',
           VlLPsiReEncIDsReq := Some \<lparr>Req_TaskID = ''t1'', EncIDs = [4]\<rparr>\<rparr>))
   = Some (None, Some (errorx_New ErrCodeInternal
                         ''failed to Marshal payload: proto: invalid UTF-8''))"
  by (simp add: step_defs toy_defs)

text \<open>
  Claim C1, as amended. Each message that \<^verbatim>\<open>advance\<close> processes produces at most one
  call of \<^verbatim>\<open>SaveResult\<close>, so a lifetime of \<open>n\<close> messages produces at most \<open>n\<close> calls (none,
  one or several: one for every execution of an error path and one for every success
  path), and the calls that report a success are at most as many as the
  \<^verbatim>\<open>MsgTrainModels\<close> messages processed.
\<close>

theorem SaveResult_calls_bounded:
  "run E l ms = Some (l', rs) \<Longrightarrow>
   length rs \<le> length ms \<and>
   length (filter Success rs) \<le> length (filter (\<lambda>m. Type m = MsgTrainModels) ms)"
proof (induction ms arbitrary: l l' rs)
  case Nil
  then show ?case by simp
next
  case (Cons m ms)
  from Cons.prems obtain out l1 rs1 where
    a: "advance E l m = Some out" and r: "run E (learner out) ms = Some (l1, rs1)"
    and rs: "rs = saved out @ rs1"
    by (auto split: option.splits)
  have ih: "length rs1 \<le> length ms"
    "length (filter Success rs1) \<le> length (filter (\<lambda>m. Type m = MsgTrainModels) ms)"
    using Cons.IH [OF r] by simp_all
  have one: "length (saved out) \<le> 1" using advance_saved_le1 [OF a] .
  have "length (filter Success (saved out)) \<le> (if Type m = MsgTrainModels then 1 else 0)"
  proof (cases "Type m = MsgTrainModels")
    case True
    have "length (filter Success (saved out)) \<le> length (saved out)" by (rule length_filter_le)
    from this one have "length (filter Success (saved out)) \<le> 1" by (rule le_trans)
    with True show ?thesis by simp
  next
    case False
    have "filter Success (saved out) = []"
      using advance_saved_Success [OF a] False by (auto simp: filter_empty_conv)
    then show ?thesis by simp
  qed
  with ih one rs show ?case by auto
qed

text \<open>A short lifetime that ends with the model: three messages, one call.\<close>

theorem SaveResult_calls_bounded_witness:
  "run (toy_env psi_ok process_ok 0 True) learnerA
     [empty_Message\<lparr>Type := MsgPsiIntersect\<rparr>, empty_Message\<lparr>Type := MsgTrainHup\<rparr>,
      empty_Message\<lparr>Type := MsgTrainModels\<rparr>]
   = Some (learnerA\<lparr>fileRows := [[''1'', ''0.2'']], status := learnerStatusEndTrain,
             process := 2, rpc := 1\<rparr>,
           [\<lparr>Res_TaskID = ''t1'', Success = True, Model = [42], ErrMsg = []\<rparr>]) \<and>
   length [\<lparr>Res_TaskID = ''t1'', Success = True, Model = [42], ErrMsg = []\<rparr>] \<le> (3::nat)"
proof -
  have h: "run (toy_env psi_ok process_ok 0 True) learnerA
     [empty_Message\<lparr>Type := MsgPsiIntersect\<rparr>, empty_Message\<lparr>Type := MsgTrainHup\<rparr>,
      empty_Message\<lparr>Type := MsgTrainModels\<rparr>]
   = Some (learnerA\<lparr>fileRows := [[''1'', ''0.2'']], status := learnerStatusEndTrain,
             process := 2, rpc := 1\<rparr>,
           [\<lparr>Res_TaskID = ''t1'', Success = True, Model = [42], ErrMsg = []\<rparr>])"
    by (simp add: step_defs toy_defs)
  from SaveResult_calls_bounded [OF h] show ?thesis using h by simp
qed

text \<open>
  Against claim C1 as stated: the learner's own first message \<^verbatim>\<open>MsgPsiEnc\<close> fails, and
  so does the peer's \<^verbatim>\<open>MsgPsiReEnc\<close> that arrives next; \<^verbatim>\<open>SaveResult\<close> is called twice.
\<close>

theorem SaveResult_called_twice_counterexample:
  "map_option snd
     (run (toy_env psi_failing process_ok 0 True) learnerA
        [empty_Message\<lparr>Type := MsgPsiEnc\<rparr>,
         empty_Message\<lparr>Type := MsgPsiReEnc, From := ''B'',
           VlLPsiReEncIDsReq := Some \<lparr>Req_TaskID = ''t1'', EncIDs = [4]\<rparr>\<rparr>])
   = Some [\<lparr>Res_TaskID = ''t1'', Success = False, Model = [], ErrMsg = ''psi: no samples''\<rparr>,
           \<lparr>Res_TaskID = ''t1'', Success = False, Model = [], ErrMsg = ''psi: bad ids''\<rparr>]"
  by (simp add: step_defs toy_defs)

text \<open>
  Claim C2 says that the status only moves forward along StartPSI, EndPSI, StartTrain,
  EndTrain, also on a duplicate \<^verbatim>\<open>MsgPsiIntersect\<close> after training has started. The case
  \<^verbatim>\<open>MsgPsiIntersect\<close> writes EndPSI without looking at the status, unlike \<^verbatim>\<open>MsgTrainHup\<close>
  and \<^verbatim>\<open>MsgTrainModels\<close>: here the learner finishes PSI, starts training, and a second
  \<^verbatim>\<open>MsgPsiIntersect\<close> (the learner starts one from \<^verbatim>\<open>MsgPsiAskReEnc\<close> and one from
  \<^verbatim>\<open>MsgPsiReEnc\<close>) takes the status from StartTrain back to EndPSI.
\<close>

theorem status_goes_back_on_second_MsgPsiIntersect:
  "statuses (toy_env psi_ok process_ok 0 True) learnerA
     [empty_Message\<lparr>Type := MsgPsiIntersect\<rparr>, empty_Message\<lparr>Type := MsgTrainHup\<rparr>,
      empty_Message\<lparr>Type := MsgPsiIntersect\<rparr>]
   = [learnerStatusEndPSI, learnerStatusStartTrain, learnerStatusEndPSI]"
  by (simp add: step_defs toy_defs)

end
